theory Spec2Isabelle
  imports Main "HOL-Library.Sublist" "HOL-Library.Multiset"
begin

section \<open>Decoded JSON values\<close>

text \<open>
  The value \<open>json.loads\<close> returns for one line of a log file. An object is an association
  list read with \<open>map_of\<close> (a decoded object has every key once); \<open>JNull\<close> is Python's
  \<open>None\<close>. A float is kept as a mantissa and a binary exponent: only whether it is zero is
  ever inspected.
\<close>

datatype json =
    JNull
  | JBool bool
  | JInt int
  | JFloat int int
  | JString string
  | JArray "json list"
  | JObject "(string \<times> json) list"

type_synonym dict = "(string \<times> json) list"

text \<open>\<open>d.get(key, default)\<close> and \<open>d.get(key)\<close> on a dict.\<close>

definition get :: "dict \<Rightarrow> string \<Rightarrow> json \<Rightarrow> json" where
  "get d key dflt = (case map_of d key of Some v \<Rightarrow> v | None \<Rightarrow> dflt)"

definition get_opt :: "dict \<Rightarrow> string \<Rightarrow> json option" where
  "get_opt d key = (case map_of d key of Some JNull \<Rightarrow> None | Some v \<Rightarrow> Some v | None \<Rightarrow> None)"

text \<open>Python truthiness (\<open>if x\<close>, \<open>not x\<close>) of a decoded value.\<close>

fun truthy :: "json \<Rightarrow> bool" where
  "truthy JNull = False"
| "truthy (JBool b) = b"
| "truthy (JInt n) = (n \<noteq> 0)"
| "truthy (JFloat m e) = (m \<noteq> 0)"
| "truthy (JString s) = (s \<noteq> [])"
| "truthy (JArray xs) = (xs \<noteq> [])"
| "truthy (JObject kv) = (kv \<noteq> [])"

text \<open>
  The only exception the decoding functions can raise: an attribute (\<open>get\<close>, \<open>replace\<close>)
  looked up on a value that does not have it.
\<close>

datatype error = AttributeError string

section \<open>Data model\<close>

text \<open>
  The dataclasses of the source. Python does not check field annotations: \<open>from_dict\<close>
  stores whatever \<open>d.get\<close> returns. The types are therefore parameters: \<open>'s\<close> for a field
  declared \<open>str\<close>, \<open>'b\<close> for \<open>bool\<close>, \<open>'i\<close> for \<open>int\<close>, \<open>'dt\<close> for \<open>datetime\<close>. The decoding
  functions build values with \<open>'s = 'b = 'i = json\<close>; the functions that compute with the
  fields (the interaction builder, thread reconstruction, content serialisation) are
  modelled at the declared types \<open>string\<close>, \<open>bool\<close>, \<open>int\<close>. Fields declared \<open>dict\<close>,
  \<open>dict[str, Any]\<close> or \<open>str | list[dict]\<close> hold a \<open>json\<close> value in both.
\<close>

datatype ('s, 'b) ContentBlock =
    TextContent 's
  | ThinkingContent 's "'s option"
  | ToolUseContent 's 's json
  | ToolResultContent 's json 'b

record ('s, 'i) Usage =
  input_tokens :: 'i
  output_tokens :: 'i
  cache_creation_input_tokens :: 'i
  cache_read_input_tokens :: 'i
  service_tier :: 's
  usage_raw :: "dict option"

record ('s, 'b) Message =
  role :: 's
  content :: "('s, 'b) ContentBlock list"
  message_raw :: "dict option"

record ('s, 'b, 'i) AssistantMessage = "('s, 'b) Message" +
  model :: 's
  message_id :: 's
  stop_reason :: "'s option"
  stop_sequence :: "'s option"
  usage :: "('s, 'i) Usage"

text \<open>
  The subclasses of \<open>Entry\<close>, each with its own fields; \<open>UnknownEntry\<close> is the local class
  \<open>parse_entry\<close> creates for any other type tag. The class of an entry object is the
  field \<open>kind\<close> of the record, next to the four fields of the base class.
\<close>

datatype ('s, 'b, 'i) EntryKind =
    UserEntry "('s, 'b) Message" 's
  | AssistantEntry "('s, 'b, 'i) AssistantMessage" 's
  | SystemEntry 's 's 's 'b
  | FileHistorySnapshotEntry 's json 'b
  | SummaryEntry 's 's
  | QueueOperationEntry 's 's
  | UnknownEntry

record ('s, 'b, 'i, 'dt) Entry =
  uuid :: 's
  timestamp :: 'dt
  entry_type :: 's
  raw :: dict
  kind :: "('s, 'b, 'i) EntryKind"

type_synonym 'dt DecodedEntry = "(json, json, json, 'dt) Entry"
type_synonym 'dt TypedEntry = "(string, bool, int, 'dt) Entry"
type_synonym Block = "(string, bool) ContentBlock"

text \<open>
  What the program takes from outside the repository: the wall clock (\<open>datetime.now()\<close>),
  \<open>datetime.fromisoformat\<close> on a string (\<open>None\<close> is its \<open>ValueError\<close>), \<open>str()\<close> on a
  decoded value, \<open>json.dumps\<close>, and \<open>json.loads\<close> on a line (\<open>None\<close> is its
  \<open>JSONDecodeError\<close>).
\<close>

record 'dt runtime =
  now :: 'dt
  fromisoformat :: "string \<Rightarrow> 'dt option"
  str_of :: "json \<Rightarrow> string"
  json_dumps :: "json \<Rightarrow> string"
  json_loads :: "string \<Rightarrow> json option"

section \<open>Decoding\<close>

definition TextContent_from_dict :: "dict \<Rightarrow> (json, json) ContentBlock" where
  "TextContent_from_dict d = TextContent (get d ''text'' (JString ''''))"

definition ThinkingContent_from_dict :: "dict \<Rightarrow> (json, json) ContentBlock" where
  "ThinkingContent_from_dict d =
     ThinkingContent (get d ''thinking'' (JString '''')) (get_opt d ''signature'')"

definition ToolUseContent_from_dict :: "dict \<Rightarrow> (json, json) ContentBlock" where
  "ToolUseContent_from_dict d =
     ToolUseContent (get d ''id'' (JString '''')) (get d ''name'' (JString ''''))
       (get d ''input'' (JObject []))"

definition ToolResultContent_from_dict :: "dict \<Rightarrow> (json, json) ContentBlock" where
  "ToolResultContent_from_dict d =
     ToolResultContent (get d ''tool_use_id'' (JString '''')) (get d ''content'' (JString ''''))
       (get d ''is_error'' (JBool False))"

definition parse_content_block :: "'dt runtime \<Rightarrow> dict \<Rightarrow> (json, json) ContentBlock" where
  "parse_content_block rt d =
     (let block_type = get d ''type'' (JString '''') in
      if block_type = JString ''text'' then TextContent_from_dict d
      else if block_type = JString ''thinking'' then ThinkingContent_from_dict d
      else if block_type = JString ''tool_use'' then ToolUseContent_from_dict d
      else if block_type = JString ''tool_result'' then ToolResultContent_from_dict d
      else TextContent (JString (str_of rt (JObject d))))"

definition parse_content :: "'dt runtime \<Rightarrow> json \<Rightarrow> (json, json) ContentBlock list" where
  "parse_content rt c =
     (case c of
        JString s \<Rightarrow> [TextContent (JString s)]
      | JArray items \<Rightarrow>
          map (\<lambda>item. case item of JObject d \<Rightarrow> parse_content_block rt d
                                   | _ \<Rightarrow> TextContent (JString (str_of rt item))) items
      | _ \<Rightarrow> [TextContent (JString (str_of rt c))])"

text \<open>
  \<open>Usage.from_dict\<close> takes \<open>d.get("usage")\<close>: \<open>None\<close> gives the default \<open>Usage()\<close>, a dict is
  read, and on anything else \<open>d.get\<close> raises.
\<close>

definition Usage_from_dict :: "json \<Rightarrow> error + (json, json) Usage" where
  "Usage_from_dict u =
     (case u of
        JNull \<Rightarrow> Inr \<lparr> input_tokens = JInt 0, output_tokens = JInt 0,
                        cache_creation_input_tokens = JInt 0, cache_read_input_tokens = JInt 0,
                        service_tier = JString '''', usage_raw = None \<rparr>
      | JObject d \<Rightarrow> Inr \<lparr> input_tokens = get d ''input_tokens'' (JInt 0),
                            output_tokens = get d ''output_tokens'' (JInt 0),
                            cache_creation_input_tokens = get d ''cache_creation_input_tokens'' (JInt 0),
                            cache_read_input_tokens = get d ''cache_read_input_tokens'' (JInt 0),
                            service_tier = get d ''service_tier'' (JString ''''),
                            usage_raw = Some d \<rparr>
      | _ \<Rightarrow> Inl (AttributeError ''get''))"

definition UserMessage_from_dict :: "'dt runtime \<Rightarrow> json \<Rightarrow> error + (json, json) Message" where
  "UserMessage_from_dict rt m =
     (case m of
        JObject d \<Rightarrow> Inr \<lparr> role = get d ''role'' (JString ''user''),
                            content = parse_content rt (get d ''content'' (JString '''')),
                            message_raw = Some d \<rparr>
      | _ \<Rightarrow> Inl (AttributeError ''get''))"

definition AssistantMessage_from_dict ::
  "'dt runtime \<Rightarrow> json \<Rightarrow> error + (json, json, json) AssistantMessage" where
  "AssistantMessage_from_dict rt m =
     (case m of
        JObject d \<Rightarrow>
          (case Usage_from_dict (get d ''usage'' JNull) of
             Inl e \<Rightarrow> Inl e
           | Inr u \<Rightarrow> Inr \<lparr> role = get d ''role'' (JString ''assistant''),
                             content = parse_content rt (get d ''content'' (JArray [])),
                             message_raw = Some d,
                             model = get d ''model'' (JString ''''),
                             message_id = get d ''id'' (JString ''''),
                             stop_reason = get_opt d ''stop_reason'',
                             stop_sequence = get_opt d ''stop_sequence'',
                             usage = u \<rparr>)
      | _ \<Rightarrow> Inl (AttributeError ''get''))"

text \<open>
  \<open>ts.replace("Z", "+00:00")\<close> replaces every \<open>Z\<close> of the string.
\<close>

definition replace_Z :: "string \<Rightarrow> string" where
  "replace_Z s = concat (map (\<lambda>c. if c = CHR ''Z'' then ''+00:00'' else [c]) s)"

text \<open>
  \<open>_parse_timestamp\<close> is called with \<open>d.get("timestamp", "")\<close>, any decoded value. A falsy
  value gives the current time. Only \<open>ValueError\<close> is caught, so the \<open>AttributeError\<close> of
  \<open>ts.replace\<close> on a truthy value that is not a string leaves the function.
\<close>

definition parse_timestamp :: "'dt runtime \<Rightarrow> json \<Rightarrow> error + 'dt" where
  "parse_timestamp rt ts =
     (if \<not> truthy ts then Inr (now rt)
      else case ts of
             JString s \<Rightarrow> (case fromisoformat rt (replace_Z s) of
                             Some t \<Rightarrow> Inr t
                           | None \<Rightarrow> Inr (now rt))
           | _ \<Rightarrow> Inl (AttributeError ''replace''))"

definition UserEntry_from_dict :: "'dt runtime \<Rightarrow> dict \<Rightarrow> error + 'dt DecodedEntry" where
  "UserEntry_from_dict rt d =
     (let msg_dict = get d ''message'' (JObject []) in
      case parse_timestamp rt (get d ''timestamp'' (JString '''')) of
        Inl e \<Rightarrow> Inl e
      | Inr t \<Rightarrow>
          (case UserMessage_from_dict rt msg_dict of
             Inl e \<Rightarrow> Inl e
           | Inr msg \<Rightarrow> Inr \<lparr> uuid = get d ''uuid'' (JString ''''), timestamp = t,
                               entry_type = JString ''user'', raw = d,
                               kind = UserEntry msg (get d ''userType'' (JString ''external'')) \<rparr>))"

definition AssistantEntry_from_dict :: "'dt runtime \<Rightarrow> dict \<Rightarrow> error + 'dt DecodedEntry" where
  "AssistantEntry_from_dict rt d =
     (let msg_dict = get d ''message'' (JObject []) in
      case parse_timestamp rt (get d ''timestamp'' (JString '''')) of
        Inl e \<Rightarrow> Inl e
      | Inr t \<Rightarrow>
          (case AssistantMessage_from_dict rt msg_dict of
             Inl e \<Rightarrow> Inl e
           | Inr msg \<Rightarrow> Inr \<lparr> uuid = get d ''uuid'' (JString ''''), timestamp = t,
                               entry_type = JString ''assistant'', raw = d,
                               kind = AssistantEntry msg (get d ''requestId'' (JString '''')) \<rparr>))"

definition SystemEntry_from_dict :: "'dt runtime \<Rightarrow> dict \<Rightarrow> error + 'dt DecodedEntry" where
  "SystemEntry_from_dict rt d =
     (case parse_timestamp rt (get d ''timestamp'' (JString '''')) of
        Inl e \<Rightarrow> Inl e
      | Inr t \<Rightarrow> Inr \<lparr> uuid = get d ''uuid'' (JString ''''), timestamp = t,
                        entry_type = JString ''system'', raw = d,
                        kind = SystemEntry (get d ''subtype'' (JString ''''))
                                 (get d ''content'' (JString ''''))
                                 (get d ''level'' (JString ''info''))
                                 (get d ''isMeta'' (JBool False)) \<rparr>)"

text \<open>
  The snapshot's timestamp is read with \<open>d.get("snapshot", {}).get("timestamp", "")\<close>: the
  second \<open>get\<close> raises when the snapshot is not a dict.
\<close>

definition FileHistorySnapshotEntry_from_dict ::
  "'dt runtime \<Rightarrow> dict \<Rightarrow> error + 'dt DecodedEntry" where
  "FileHistorySnapshotEntry_from_dict rt d =
     (case get d ''snapshot'' (JObject []) of
        JObject snap \<Rightarrow>
          (case parse_timestamp rt (get snap ''timestamp'' (JString '''')) of
             Inl e \<Rightarrow> Inl e
           | Inr t \<Rightarrow> Inr \<lparr> uuid = get d ''messageId'' (get d ''uuid'' (JString '''')),
                             timestamp = t,
                             entry_type = JString ''file-history-snapshot'', raw = d,
                             kind = FileHistorySnapshotEntry (get d ''messageId'' (JString ''''))
                                      (get d ''snapshot'' (JObject []))
                                      (get d ''isSnapshotUpdate'' (JBool False)) \<rparr>)
      | _ \<Rightarrow> Inl (AttributeError ''get''))"

definition SummaryEntry_from_dict :: "'dt runtime \<Rightarrow> dict \<Rightarrow> error + 'dt DecodedEntry" where
  "SummaryEntry_from_dict rt d =
     Inr \<lparr> uuid = get d ''leafUuid'' (JString ''''), timestamp = now rt,
           entry_type = JString ''summary'', raw = d,
           kind = SummaryEntry (get d ''summary'' (JString ''''))
                    (get d ''leafUuid'' (JString '''')) \<rparr>"

definition QueueOperationEntry_from_dict :: "'dt runtime \<Rightarrow> dict \<Rightarrow> error + 'dt DecodedEntry" where
  "QueueOperationEntry_from_dict rt d =
     (case parse_timestamp rt (get d ''timestamp'' (JString '''')) of
        Inl e \<Rightarrow> Inl e
      | Inr t \<Rightarrow> Inr \<lparr> uuid = JString '''', timestamp = t,
                        entry_type = JString ''queue-operation'', raw = d,
                        kind = QueueOperationEntry (get d ''operation'' (JString ''''))
                                 (get d ''content'' (JString '''')) \<rparr>)"

text \<open>
  \<open>parse_entry\<close> receives what \<open>json.loads\<close> returned. Its first statement is
  \<open>d.get("type", "")\<close>, which raises on a decoded value that is not an object.
\<close>

definition parse_entry :: "'dt runtime \<Rightarrow> json \<Rightarrow> error + 'dt DecodedEntry" where
  "parse_entry rt j =
     (case j of
        JObject d \<Rightarrow>
          (let entry_type = get d ''type'' (JString '''') in
           if entry_type = JString ''user'' then UserEntry_from_dict rt d
           else if entry_type = JString ''assistant'' then AssistantEntry_from_dict rt d
           else if entry_type = JString ''system'' then SystemEntry_from_dict rt d
           else if entry_type = JString ''file-history-snapshot''
             then FileHistorySnapshotEntry_from_dict rt d
           else if entry_type = JString ''summary'' then SummaryEntry_from_dict rt d
           else if entry_type = JString ''queue-operation'' then QueueOperationEntry_from_dict rt d
           else
             (case parse_timestamp rt (get d ''timestamp'' (JString '''')) of
                Inl e \<Rightarrow> Inl e
              | Inr t \<Rightarrow> Inr \<lparr> uuid = get d ''uuid'' (JString ''''), timestamp = t,
                                entry_type = entry_type, raw = d, kind = UnknownEntry \<rparr>))
      | _ \<Rightarrow> Inl (AttributeError ''get''))"

text \<open>\<open>Entry.to_dict\<close> returns the retained record.\<close>

definition to_dict :: "('s, 'b, 'i, 'dt) Entry \<Rightarrow> json" where
  "to_dict e = JObject (raw e)"

section \<open>The round-trip verifier\<close>

text \<open>
  \<open>str.strip()\<close>: the whitespace characters among the first 256 code points, removed at both
  ends.
\<close>

definition is_space :: "char \<Rightarrow> bool" where
  "is_space c = (of_char c \<in> {9, 10, 11, 12, 13, 28, 29, 30, 31, 32, 133, 160 :: nat})"

definition strip :: "string \<Rightarrow> string" where
  "strip s = rev (dropWhile is_space (rev (dropWhile is_space s)))"



section \<open>Serialising content blocks\<close>

fun ContentBlock_to_dict :: "Block \<Rightarrow> json" where
  "ContentBlock_to_dict (TextContent t) =
     JObject [(''type'', JString ''text''), (''text'', JString t)]"
| "ContentBlock_to_dict (ThinkingContent th sg) =
     JObject ([(''type'', JString ''thinking''), (''thinking'', JString th)]
              @ (case sg of Some s \<Rightarrow> [(''signature'', JString s)] | None \<Rightarrow> []))"
| "ContentBlock_to_dict (ToolUseContent i n inp) =
     JObject [(''type'', JString ''tool_use''), (''id'', JString i), (''name'', JString n),
              (''input'', inp)]"
| "ContentBlock_to_dict (ToolResultContent tid c err) =
     JObject ([(''type'', JString ''tool_result''), (''tool_use_id'', JString tid),
               (''content'', c)]
              @ (if err then [(''is_error'', JBool err)] else []))"

text \<open>The generator \<open>b.text for b in blocks if isinstance(b, TextContent)\<close>.\<close>

fun text_contents :: "('s, 'b) ContentBlock list \<Rightarrow> 's list" where
  "text_contents [] = []"
| "text_contents (TextContent t # bs) = t # text_contents bs"
| "text_contents (b # bs) = text_contents bs"

definition serialize_content :: "Block list \<Rightarrow> json \<Rightarrow> json" where
  "serialize_content blocks original_content =
     (case original_content of
        JString s \<Rightarrow>
          (case blocks of
             [TextContent t] \<Rightarrow> JString t
           | _ \<Rightarrow> JString (concat (text_contents blocks)))
      | _ \<Rightarrow> JArray (map ContentBlock_to_dict blocks))"

section \<open>Interactions\<close>

record 'dt Action =
  action_type :: string
  timestamp :: "'dt option"
  thinking :: "string option"
  tool_name :: "string option"
  tool_id :: "string option"
  tool_input :: "json option"
  tool_result :: "string option"
  is_error :: bool
  text' :: "string option"
  summary :: "string option"

text \<open>The constructor \<open>Action(action_type=...)\<close> with every other field at its default.\<close>

definition new_Action :: "string \<Rightarrow> 'dt Action" where
  "new_Action ty = \<lparr> action_type = ty, timestamp = None, thinking = None, tool_name = None,
                     tool_id = None, tool_input = None, tool_result = None, is_error = False,
                     text' = None, summary = None \<rparr>"

record 'dt Interaction =
  id' :: string
  timestamp :: 'dt
  user_prompt :: string
  actions :: "'dt Action list"
  final_response :: "string option"
  model :: "string option"
  cancel_reason :: "string option"

text \<open>\<open>sep.join(parts)\<close> and \<open>str(n)\<close> of a counter.\<close>

fun join :: "string \<Rightarrow> string list \<Rightarrow> string" where
  "join sep [] = []"
| "join sep [x] = x"
| "join sep (x # y # ys) = x @ sep @ join sep (y # ys)"

fun str_nat :: "nat \<Rightarrow> string" where
  "str_nat n = (if n < 10 then [char_of (48 + n)]
                else str_nat (n div 10) @ [char_of (48 + n mod 10)])"

definition is_local_command_message :: "string \<Rightarrow> bool" where
  "is_local_command_message txt =
     (if prefix ''Caveat: The messages below were generated by the user while running local commands'' txt
      then True
      else if sublist ''<command-name>'' txt \<or> sublist ''<command-message>'' txt then True
      else if sublist ''<local-command-stdout>'' txt \<or> sublist ''<local-command-stderr>'' txt
      then True
      else False)"

definition AUTO_COMPACT_PREFIX :: string where
  "AUTO_COMPACT_PREFIX =
     ''This session is being continued from a previous conversation that ran out of context.''"

definition CANCELLATION_MESSAGES :: "string list" where
  "CANCELLATION_MESSAGES =
     [''[Request interrupted by user for tool use]'', ''[Request interrupted by user]'']"

definition is_auto_compact_message :: "string \<Rightarrow> bool" where
  "is_auto_compact_message txt = prefix AUTO_COMPACT_PREFIX (strip txt)"

definition is_cancellation_message :: "string \<Rightarrow> bool" where
  "is_cancellation_message txt = List.member CANCELLATION_MESSAGES (strip txt)"

fun is_tool_result :: "('s, 'b) ContentBlock \<Rightarrow> bool" where
  "is_tool_result (ToolResultContent tid c err) = True"
| "is_tool_result b = False"

definition is_human_message :: "'dt TypedEntry \<Rightarrow> bool" where
  "is_human_message entry =
     (case kind entry of
        UserEntry message user_type \<Rightarrow>
          if list_ex is_tool_result (content message) then False
          else (let txt = concat (text_contents (content message)) in
                if is_local_command_message txt then False
                else if is_auto_compact_message txt then False
                else if is_cancellation_message txt then False
                else True)
      | _ \<Rightarrow> False)"

definition get_text_content :: "(string, bool) Message \<Rightarrow> string" where
  "get_text_content message = join [CHR 0x0A] (text_contents (content message))"

text \<open>
  The two prefixes of a stringified thinking block,
  \<^verbatim>\<open>{'type': 'thinking'\<close> and \<^verbatim>\<open>{"type": "thinking"\<close>.
\<close>

definition thinking_repr_single :: string where
  "thinking_repr_single =
     ''{'' @ [CHR 0x27] @ ''type'' @ [CHR 0x27] @ '': '' @ [CHR 0x27] @ ''thinking'' @ [CHR 0x27]"

definition thinking_repr_double :: string where
  "thinking_repr_double =
     ''{'' @ [CHR 0x22] @ ''type'' @ [CHR 0x22] @ '': '' @ [CHR 0x22] @ ''thinking'' @ [CHR 0x22]"

text \<open>
  The loop of \<open>_extract_actions_from_assistant\<close> over the blocks, with its three
  accumulators. Of the four block classes only \<open>ThinkingContent\<close> has an attribute
  \<open>thinking\<close>; a tool result inside an assistant message matches no branch.
\<close>

fun extract_blocks ::
  "'dt \<Rightarrow> Block list \<Rightarrow> 'dt Action list \<times> string list \<times> bool
     \<Rightarrow> 'dt Action list \<times> string list \<times> bool" where
  "extract_blocks ts [] acc = acc"
| "extract_blocks ts (ThinkingContent th sg # bs) (acts, text_parts, has_tool_use) =
     extract_blocks ts bs
       (acts @ [(new_Action ''thinking'')\<lparr> Action.timestamp := Some ts, thinking := Some th \<rparr>],
        text_parts, has_tool_use)"
| "extract_blocks ts (ToolUseContent i n inp # bs) (acts, text_parts, has_tool_use) =
     extract_blocks ts bs
       (acts @ [(new_Action ''tool_use'')\<lparr> Action.timestamp := Some ts, tool_name := Some n,
                                            tool_id := Some i, tool_input := Some inp \<rparr>],
        text_parts, True)"
| "extract_blocks ts (TextContent t # bs) (acts, text_parts, has_tool_use) =
     (if prefix thinking_repr_single t \<or> prefix thinking_repr_double t
      then extract_blocks ts bs (acts, text_parts, has_tool_use)
      else extract_blocks ts bs (acts, text_parts @ [t], has_tool_use))"
| "extract_blocks ts (ToolResultContent tid c err # bs) acc = extract_blocks ts bs acc"

definition extract_actions_from_assistant ::
  "'dt \<Rightarrow> (string, bool, int) AssistantMessage
     \<Rightarrow> 'dt Action list \<times> string option \<times> bool" where
  "extract_actions_from_assistant ts message =
     (case extract_blocks ts (content message) ([], [], False) of
        (acts, text_parts, has_tool_use) \<Rightarrow>
          (acts,
           if text_parts \<noteq> [] then Some (join [CHR 0x0A] text_parts) else None,
           has_tool_use))"

text \<open>
  A Python dict keeps its keys in insertion order: assigning to a key that is present
  replaces the value where it stands, a new key goes to the end.
\<close>

fun setitem :: "('k \<times> 'v) list \<Rightarrow> 'k \<Rightarrow> 'v \<Rightarrow> ('k \<times> 'v) list" where
  "setitem [] k v = [(k, v)]"
| "setitem ((k', v') # kvs) k v = (if k' = k then (k, v) # kvs else (k', v') # setitem kvs k v)"

fun extract_tool_results ::
  "'dt runtime \<Rightarrow> Block list \<Rightarrow> (string \<times> string \<times> bool) list
     \<Rightarrow> (string \<times> string \<times> bool) list" where
  "extract_tool_results rt [] results = results"
| "extract_tool_results rt (ToolResultContent tid c err # bs) results =
     (let content_str = (case c of JString s \<Rightarrow> s | _ \<Rightarrow> json_dumps rt c) in
      extract_tool_results rt bs (setitem results tid (content_str, err)))"
| "extract_tool_results rt (b # bs) results = extract_tool_results rt bs results"

text \<open>
  \<open>_find_tool_use_action\<close> returns the first action of the list that is a tool use with
  the given id; the model returns its position, through which the caller updates it.
\<close>

fun find_tool_use_action :: "'dt Action list \<Rightarrow> string \<Rightarrow> nat option" where
  "find_tool_use_action [] tid = None"
| "find_tool_use_action (a # as) tid =
     (if action_type a = ''tool_use'' \<and> tool_id a = Some tid then Some 0
      else map_option Suc (find_tool_use_action as tid))"

text \<open>
  The body of the loop over \<open>tool_results.items()\<close>: the action found, if any, receives
  the result and the error flag.
\<close>

definition complete_tool_use ::
  "'dt Action list \<Rightarrow> string \<Rightarrow> string \<times> bool \<Rightarrow> 'dt Action list" where
  "complete_tool_use acts tid res =
     (case find_tool_use_action acts tid of
        None \<Rightarrow> acts
      | Some i \<Rightarrow> acts[i := (acts ! i)\<lparr> tool_result := Some (fst res), is_error := snd res \<rparr>])"

fun apply_tool_results ::
  "(string \<times> string \<times> bool) list \<Rightarrow> 'dt Action list \<Rightarrow> 'dt Action list" where
  "apply_tool_results [] acts = acts"
| "apply_tool_results ((tid, res) # rest) acts =
     apply_tool_results rest (complete_tool_use acts tid res)"

text \<open>
  The three locals of \<open>build_interactions\<close> that the loop over the entries updates. The
  counter starts at 0 and is only ever incremented, so it is a natural number.
\<close>

record 'dt builder =
  interactions :: "'dt Interaction list"
  current_interaction :: "'dt Interaction option"
  interaction_counter :: nat

definition on_human :: "'dt TypedEntry \<Rightarrow> (string, bool) Message \<Rightarrow> 'dt builder \<Rightarrow> 'dt builder" where
  "on_human entry message st =
     (let saved = (case current_interaction st of
                     Some cur \<Rightarrow> interactions st @ [cur]
                   | None \<Rightarrow> interactions st);
          counter = interaction_counter st + 1 in
      \<lparr> interactions = saved,
        current_interaction = Some
          \<lparr> id' = ''interaction-'' @ str_nat counter,
            timestamp = Entry.timestamp entry,
            user_prompt = get_text_content message,
            actions = [],
            final_response = None,
            model = None,
            cancel_reason = None \<rparr>,
        interaction_counter = counter \<rparr>)"

definition on_user :: "'dt runtime \<Rightarrow> 'dt TypedEntry \<Rightarrow> (string, bool) Message
     \<Rightarrow> 'dt Interaction \<Rightarrow> 'dt Interaction" where
  "on_user rt entry message cur =
     (let txt = get_text_content message in
      if is_cancellation_message txt then cur\<lparr> cancel_reason := Some (strip txt) \<rparr>
      else if is_auto_compact_message txt then
        cur\<lparr> actions := actions cur @
               [(new_Action ''auto_compact'')\<lparr> Action.timestamp := Some (Entry.timestamp entry),
                                                summary := Some txt \<rparr>] \<rparr>
      else
        (let tool_results = extract_tool_results rt (content message) [] in
         cur\<lparr> actions := apply_tool_results tool_results (actions cur) \<rparr>))"

definition on_assistant :: "'dt TypedEntry \<Rightarrow> (string, bool, int) AssistantMessage
     \<Rightarrow> 'dt Interaction \<Rightarrow> 'dt Interaction" where
  "on_assistant entry message cur =
     (case extract_actions_from_assistant (Entry.timestamp entry) message of
        (acts, txt, has_tool_use) \<Rightarrow>
          (let c1 = cur\<lparr> actions := actions cur @ acts \<rparr>;
               c2 = (if Interaction.model c1 = None \<and> AssistantMessage.model message \<noteq> []
                     then c1\<lparr> Interaction.model := Some (AssistantMessage.model message) \<rparr>
                     else c1) in
           case txt of
             None \<Rightarrow> c2
           | Some t \<Rightarrow>
               if t = [] then c2
               else
                 (let c3 = c2\<lparr> actions := actions c2 @
                            [(new_Action ''text'')\<lparr> Action.timestamp := Some (Entry.timestamp entry),
                                                     text' := Some t \<rparr>] \<rparr> in
                  case final_response c3 of
                    None \<Rightarrow> c3\<lparr> final_response := Some t \<rparr>
                  | Some r \<Rightarrow>
                      if r = [] then c3\<lparr> final_response := Some t \<rparr>
                      else c3\<lparr> final_response := Some (r @ [CHR 0x0A] @ t) \<rparr>)))"

text \<open>
  One iteration of the loop: system and summary entries are skipped, a human message
  flushes the current interaction and starts the next one, any other user entry and an
  assistant entry change the current interaction when there is one, and every other entry
  changes nothing. The test \<open>_is_human_message\<close> is false on everything that is not a
  \<open>UserEntry\<close>, so the model looks at the class of the entry first.
\<close>

definition step :: "'dt runtime \<Rightarrow> 'dt builder \<Rightarrow> 'dt TypedEntry \<Rightarrow> 'dt builder" where
  "step rt st entry =
     (case kind entry of
        SystemEntry subtype c level is_meta \<Rightarrow> st
      | SummaryEntry s leaf \<Rightarrow> st
      | UserEntry message user_type \<Rightarrow>
          if is_human_message entry then on_human entry message st
          else (case current_interaction st of
                  None \<Rightarrow> st
                | Some cur \<Rightarrow> st\<lparr> current_interaction := Some (on_user rt entry message cur) \<rparr>)
      | AssistantEntry message request_id \<Rightarrow>
          (case current_interaction st of
             None \<Rightarrow> st
           | Some cur \<Rightarrow> st\<lparr> current_interaction := Some (on_assistant entry message cur) \<rparr>)
      | _ \<Rightarrow> st)"

definition flush :: "'dt builder \<Rightarrow> 'dt Interaction list" where
  "flush st = (case current_interaction st of
                 Some cur \<Rightarrow> interactions st @ [cur]
               | None \<Rightarrow> interactions st)"

definition build_interactions :: "'dt runtime \<Rightarrow> 'dt TypedEntry list \<Rightarrow> 'dt Interaction list" where
  "build_interactions rt entries =
     flush (foldl (step rt) \<lparr> interactions = [], current_interaction = None,
                              interaction_counter = 0 \<rparr> entries)"

section \<open>Conversation threads\<close>











subsection \<open>Vocabulary for the statements about threads\<close>













section \<open>Vocabulary for the statements about the verifier and the builder\<close>





text \<open>
  A runtime for the statements at concrete inputs: the clock stands at \<open>0\<close>, one timestamp
  is accepted, and three lines are valid JSON.
\<close>

definition sample_runtime :: "nat runtime" where
  \<open>sample_runtime =
     \<lparr> now = 0,
       fromisoformat = [''2025-01-01T00:00:00+00:00'' \<mapsto> 1],
       str_of = (\<lambda>j. ''?''),
       json_dumps = (\<lambda>j. ''?''),
       json_loads = [''[]'' \<mapsto> JArray [], ''{}'' \<mapsto> JObject [],
                     ''{"timestamp": 1700000000}'' \<mapsto> JObject [(''timestamp'', JInt 1700000000)]] \<rparr>\<close>

text \<open>
  For the builder: an assistant entry, the prompt of a user entry, a tool-use action with
  a given id, an action that has received no result, and the reading of the
  specification in which every \<open>ToolResult\<close> block, in the order of the message, completes
  the action found for its id.
\<close>

definition is_assistant :: "('s, 'b, 'i, 'dt) Entry \<Rightarrow> bool" where
  "is_assistant e = (case kind e of AssistantEntry m rq \<Rightarrow> True | _ \<Rightarrow> False)"

definition human_prompt :: "'dt TypedEntry \<Rightarrow> string" where
  "human_prompt e = (case kind e of UserEntry m ut \<Rightarrow> get_text_content m | _ \<Rightarrow> [])"














section \<open>Round trip of one entry\<close>

lemma from_dict_raw:
  "UserEntry_from_dict rt d = Inr e \<Longrightarrow> raw e = d"
  "AssistantEntry_from_dict rt d = Inr e \<Longrightarrow> raw e = d"
  "SystemEntry_from_dict rt d = Inr e \<Longrightarrow> raw e = d"
  "FileHistorySnapshotEntry_from_dict rt d = Inr e \<Longrightarrow> raw e = d"
  "SummaryEntry_from_dict rt d = Inr e \<Longrightarrow> raw e = d"
  "QueueOperationEntry_from_dict rt d = Inr e \<Longrightarrow> raw e = d"
  by (auto simp: UserEntry_from_dict_def AssistantEntry_from_dict_def SystemEntry_from_dict_def
      FileHistorySnapshotEntry_from_dict_def SummaryEntry_from_dict_def
      QueueOperationEntry_from_dict_def Let_def split: sum.splits json.splits)

lemma parse_entry_raw: "parse_entry rt j = Inr e \<Longrightarrow> JObject (raw e) = j"
  unfolding parse_entry_def Let_def
  by (cases j) (auto dest: from_dict_raw split: if_splits sum.splits)


text \<open>
  C1. Whenever \<open>parse_entry\<close> returns an entry for a decoded record, of any of the seven
  kinds, \<open>to_dict\<close> of that entry is the decoded record itself.
\<close>

theorem C1_roundtrip: "parse_entry rt j = Inr e \<Longrightarrow> to_dict e = j"
  by (simp add: to_dict_def parse_entry_raw)

text \<open>A user record with a \<open>Z\<close> timestamp and a plain-string content.\<close>

theorem C1_roundtrip_witness:
  "parse_entry sample_runtime
     (JObject [(''type'', JString ''user''), (''timestamp'', JString ''2025-01-01T00:00:00Z''),
               (''message'', JObject [(''content'', JString ''hi'')])])
   = Inr \<lparr> uuid = JString '''', Entry.timestamp = 1, entry_type = JString ''user'',
           raw = [(''type'', JString ''user''), (''timestamp'', JString ''2025-01-01T00:00:00Z''),
                  (''message'', JObject [(''content'', JString ''hi'')])],
           kind = UserEntry \<lparr> role = JString ''user'', content = [TextContent (JString ''hi'')],
                              message_raw = Some [(''content'', JString ''hi'')] \<rparr>
                    (JString ''external'') \<rparr>
   \<and> to_dict (\<lparr> uuid = JString '''', Entry.timestamp = 1, entry_type = JString ''user'',
           raw = [(''type'', JString ''user''), (''timestamp'', JString ''2025-01-01T00:00:00Z''),
                  (''message'', JObject [(''content'', JString ''hi'')])],
           kind = UserEntry \<lparr> role = JString ''user'', content = [TextContent (JString ''hi'')],
                              message_raw = Some [(''content'', JString ''hi'')] \<rparr>
                    (JString ''external'') \<rparr> :: nat DecodedEntry)
     = JObject [(''type'', JString ''user''), (''timestamp'', JString ''2025-01-01T00:00:00Z''),
                (''message'', JObject [(''content'', JString ''hi'')])]"
proof -
  have h: "parse_entry sample_runtime
     (JObject [(''type'', JString ''user''), (''timestamp'', JString ''2025-01-01T00:00:00Z''),
               (''message'', JObject [(''content'', JString ''hi'')])])
   = Inr \<lparr> uuid = JString '''', Entry.timestamp = 1, entry_type = JString ''user'',
           raw = [(''type'', JString ''user''), (''timestamp'', JString ''2025-01-01T00:00:00Z''),
                  (''message'', JObject [(''content'', JString ''hi'')])],
           kind = UserEntry \<lparr> role = JString ''user'', content = [TextContent (JString ''hi'')],
                              message_raw = Some [(''content'', JString ''hi'')] \<rparr>
                    (JString ''external'') \<rparr>"
    by (simp add: parse_entry_def UserEntry_from_dict_def UserMessage_from_dict_def
        parse_timestamp_def parse_content_def get_def replace_Z_def sample_runtime_def Let_def)
  from C1_roundtrip [OF h] h show ?thesis by simp
qed

section \<open>The interaction builder on the example of the specification\<close>

lemma plain_texts:
  "\<not> is_local_command_message ''Fix the bug''"
  "\<not> is_auto_compact_message ''Fix the bug''"
  "\<not> is_cancellation_message ''Fix the bug''"
  "\<not> is_cancellation_message []"
  "\<not> is_auto_compact_message []"
  "\<not> prefix thinking_repr_single ''Fixed, rerun''"
  "\<not> prefix thinking_repr_double ''Fixed, rerun''"
  by code_simp+

lemma str_nat_1: "str_nat (Suc 0) = ''1''"
  by code_simp

lemmas builder_defs = build_interactions_def step_def flush_def is_human_message_def
  on_human_def on_user_def on_assistant_def get_text_content_def
  extract_actions_from_assistant_def new_Action_def complete_tool_use_def Let_def

text \<open>
  C3. On the four entries of the example (a human message, an assistant message with one
  tool use, a user message with its result, an assistant message with a text), whatever
  their other fields, the builder returns one interaction: it is \<open>interaction-1\<close>, carries
  the prompt, the completed tool use followed by the text, and the text as final response.
\<close>

theorem C3_example:
  "map (\<lambda>i. (id' i, Interaction.timestamp i, user_prompt i, actions i, final_response i,
             cancel_reason i))
     (build_interactions rt
       [\<lparr> uuid = u1, Entry.timestamp = t1, entry_type = ''user'', raw = r1,
           kind = UserEntry \<lparr> role = ''user'', content = [TextContent ''Fix the bug''],
                              message_raw = mr1 \<rparr> ut1 \<rparr>,
        \<lparr> uuid = u2, Entry.timestamp = t2, entry_type = ''assistant'', raw = r2,
           kind = AssistantEntry \<lparr> role = ''assistant'',
                                   content = [ToolUseContent ''t1'' ''run_tests'' inp],
                                   message_raw = mr2, AssistantMessage.model = m2,
                                   message_id = i2, stop_reason = sr2, stop_sequence = ss2,
                                   usage = us2 \<rparr> rq2 \<rparr>,
        \<lparr> uuid = u3, Entry.timestamp = t3, entry_type = ''user'', raw = r3,
           kind = UserEntry \<lparr> role = ''user'',
                              content = [ToolResultContent ''t1'' (JString ''2 failed'') True],
                              message_raw = mr3 \<rparr> ut3 \<rparr>,
        \<lparr> uuid = u4, Entry.timestamp = t4, entry_type = ''assistant'', raw = r4,
           kind = AssistantEntry \<lparr> role = ''assistant'',
                                   content = [TextContent ''Fixed, rerun''],
                                   message_raw = mr4, AssistantMessage.model = m4,
                                   message_id = i4, stop_reason = sr4, stop_sequence = ss4,
                                   usage = us4 \<rparr> rq4 \<rparr>])
   = [(''interaction-1'', t1, ''Fix the bug'',
       [\<lparr> action_type = ''tool_use'', Action.timestamp = Some t2, thinking = None,
           tool_name = Some ''run_tests'', tool_id = Some ''t1'', tool_input = Some inp,
           tool_result = Some ''2 failed'', is_error = True, text' = None, summary = None \<rparr>,
        \<lparr> action_type = ''text'', Action.timestamp = Some t4, thinking = None,
           tool_name = None, tool_id = None, tool_input = None,
           tool_result = None, is_error = False, text' = Some ''Fixed, rerun'',
           summary = None \<rparr>],
       Some ''Fixed, rerun'', None)]"
  by (simp add: builder_defs plain_texts str_nat_1 del: str_nat.simps)

section \<open>Serialising content\<close>

lemma serialize_content_str:
  "serialize_content blocks (JString s) = JString (concat (text_contents blocks))"
proof (cases blocks)
  case Nil
  then show ?thesis by (simp add: serialize_content_def)
next
  case (Cons b bs)
  then show ?thesis
    by (cases b; cases bs) (simp_all add: serialize_content_def)
qed

text \<open>
  C5. When the original content is a string, \<open>serialize_content\<close> returns a string: the
  concatenation of the texts of the \<open>TextContent\<close> blocks, which is the block's own text
  for a single text block and the empty string when there is none, and which is never a
  list. For any other original content it returns the list of the block records.
\<close>

theorem C5_serialize_content:
  "serialize_content blocks (JString s) = JString (concat (text_contents blocks))
   \<and> serialize_content [TextContent t] (JString s) = JString t
   \<and> (text_contents blocks = [] \<longrightarrow> serialize_content blocks (JString s) = JString [])
   \<and> serialize_content blocks (JString s) \<noteq> JArray js
   \<and> ((case original of JString x \<Rightarrow> False | _ \<Rightarrow> True)
        \<longrightarrow> serialize_content blocks original = JArray (map ContentBlock_to_dict blocks))"
proof -
  have "serialize_content blocks original = JArray (map ContentBlock_to_dict blocks)"
    if "case original of JString x \<Rightarrow> False | _ \<Rightarrow> True"
    using that by (cases original) (simp_all add: serialize_content_def)
  then show ?thesis
    by (simp add: serialize_content_str)
qed

theorem C5_serialize_content_witness:
  "serialize_content [ToolUseContent ''t1'' ''run_tests'' (JObject [])] (JString ''x'')
     = JString []
   \<and> serialize_content [TextContent ''a'', ThinkingContent ''hm'' None, TextContent ''b'']
       (JString ''x'') = JString ''ab''
   \<and> serialize_content [TextContent ''a''] JNull
     = JArray [JObject [(''type'', JString ''text''), (''text'', JString ''a'')]]"
  using C5_serialize_content [of "[ToolUseContent ''t1'' ''run_tests'' (JObject [])]" "''x''"
      undefined undefined JNull]
    C5_serialize_content [of "[TextContent ''a'', ThinkingContent ''hm'' None, TextContent ''b'']"
      "''x''" undefined undefined JNull]
    C5_serialize_content [of "[TextContent ''a'']" "''x''" undefined undefined JNull]
  by simp

section \<open>Timestamps\<close>

lemma replace_Z_append: "replace_Z (s @ t) = replace_Z s @ replace_Z t"
  by (simp add: replace_Z_def)

text \<open>
  C7, as the code has it. A timestamp that is a string, or that is falsy (the default
  \<open>""\<close> of a missing key, \<open>null\<close>, \<open>false\<close>, \<open>0\<close>, an empty list or object) never raises:
  the result is the time \<open>fromisoformat\<close> parsed, after every \<open>Z\<close> (a trailing one too)
  became \<open>+00:00\<close>, or else the current time.
\<close>

theorem C7_timestamp_amended:
  "parse_timestamp rt (JString s) =
     Inr (if s = [] then now rt
          else case fromisoformat rt (replace_Z s) of Some t \<Rightarrow> t | None \<Rightarrow> now rt)
   \<and> replace_Z (s @ ''Z'') = replace_Z s @ ''+00:00''
   \<and> parse_timestamp rt (get [] ''timestamp'' (JString '''')) = Inr (now rt)
   \<and> (\<not> truthy ts \<longrightarrow> parse_timestamp rt ts = Inr (now rt))"
  by (simp add: parse_timestamp_def replace_Z_append get_def split: option.splits)
     (simp add: replace_Z_def)

theorem C7_timestamp_amended_witness:
  "parse_timestamp sample_runtime (JString ''2025-01-01T00:00:00Z'') = Inr 1
   \<and> parse_timestamp sample_runtime (JString ''yesterday'') = Inr 0
   \<and> parse_timestamp sample_runtime JNull = Inr 0"
  using C7_timestamp_amended [of sample_runtime "''2025-01-01T00:00:00Z''" JNull]
    C7_timestamp_amended [of sample_runtime "''yesterday''" JNull]
  by (simp add: sample_runtime_def replace_Z_def)

text \<open>
  C7 as the specification states it fails on a timestamp that is a number: the value is
  truthy, has no \<open>replace\<close>, and the \<open>AttributeError\<close> is not the \<open>ValueError\<close> the
  function catches.
\<close>

theorem C7_timestamp_counterexample:
  "parse_timestamp sample_runtime (JInt 1700000000) = Inl (AttributeError ''replace'')"
  by (simp add: parse_timestamp_def)

section \<open>The round-trip verifier\<close>







section \<open>Entries before the first human message\<close>

lemma step_idle:
  "current_interaction st = None \<Longrightarrow> \<not> is_human_message e \<Longrightarrow> step rt st e = st"
  by (simp add: step_def split: EntryKind.splits)

lemma foldl_step_idle:
  "current_interaction st = None \<Longrightarrow> list_all (\<lambda>e. \<not> is_human_message e) es \<Longrightarrow>
   foldl (step rt) st es = st"
  by (induction es) (simp_all add: step_idle)

lemma list_all_takeWhile: "list_all P (takeWhile P xs)"
  by (induction xs) simp_all

lemma list_all_filter_takeWhile: "list_all P (filter Q (takeWhile P xs))"
  by (induction xs) simp_all

text \<open>
  C9. No interaction is active until the first human message. The assistant entries that
  arrive before it change nothing: the builder returns the same list for the sequence
  with all of them removed.
\<close>

theorem C9_idle_assistant_ignored:
  "build_interactions rt
     (filter (\<lambda>e. \<not> is_assistant e) (takeWhile (\<lambda>e. \<not> is_human_message e) es)
      @ dropWhile (\<lambda>e. \<not> is_human_message e) es)
   = build_interactions rt es"
proof -
  let ?st0 = "\<lparr> interactions = [], current_interaction = None, interaction_counter = 0 \<rparr>
                :: 'a builder"
  let ?pre = "takeWhile (\<lambda>e. \<not> is_human_message e) es"
  let ?suf = "dropWhile (\<lambda>e. \<not> is_human_message e) es"
  have a: "foldl (step rt) ?st0 ?pre = ?st0"
    by (rule foldl_step_idle) (simp_all add: list_all_takeWhile)
  have b: "foldl (step rt) ?st0 (filter (\<lambda>e. \<not> is_assistant e) ?pre) = ?st0"
    by (rule foldl_step_idle) (simp_all add: list_all_filter_takeWhile)
  have "foldl (step rt) ?st0 es = foldl (step rt) ?st0 (?pre @ ?suf)"
    by simp
  also have "\<dots> = foldl (step rt) ?st0 ?suf"
    by (simp only: foldl_append a)
  finally show ?thesis
    by (simp only: build_interactions_def foldl_append b)
qed

section \<open>Identity and order of the interactions\<close>

lemma human_is_user: "is_human_message e \<Longrightarrow> \<exists>m ut. kind e = UserEntry m ut"
  by (cases "kind e") (simp_all add: is_human_message_def)

lemma step_human:
  assumes "is_human_message e"
  shows "interaction_counter (step rt st e) = Suc (interaction_counter st)"
    and "map id' (flush (step rt st e))
         = map id' (flush st) @ [''interaction-'' @ str_nat (Suc (interaction_counter st))]"
    and "map Interaction.timestamp (flush (step rt st e))
         = map Interaction.timestamp (flush st) @ [Entry.timestamp e]"
    and "map user_prompt (flush (step rt st e)) = map user_prompt (flush st) @ [human_prompt e]"
proof -
  from assms obtain m ut where k: "kind e = UserEntry m ut"
    using human_is_user by blast
  show "interaction_counter (step rt st e) = Suc (interaction_counter st)"
    using assms k by (simp add: step_def on_human_def Let_def)
  show "map id' (flush (step rt st e))
         = map id' (flush st) @ [''interaction-'' @ str_nat (Suc (interaction_counter st))]"
    using assms k by (simp add: step_def on_human_def flush_def Let_def del: str_nat.simps split: option.splits)
  show "map Interaction.timestamp (flush (step rt st e))
         = map Interaction.timestamp (flush st) @ [Entry.timestamp e]"
    using assms k by (simp add: step_def on_human_def flush_def Let_def del: str_nat.simps split: option.splits)
  show "map user_prompt (flush (step rt st e)) = map user_prompt (flush st) @ [human_prompt e]"
    using assms k by (simp add: step_def on_human_def flush_def human_prompt_def Let_def del: str_nat.simps split: option.splits)
qed

lemma on_user_keeps:
  "id' (on_user rt e m cur) = id' cur"
  "Interaction.timestamp (on_user rt e m cur) = Interaction.timestamp cur"
  "user_prompt (on_user rt e m cur) = user_prompt cur"
  by (simp_all add: on_user_def Let_def)

lemma on_assistant_keeps:
  "id' (on_assistant e m cur) = id' cur"
  "Interaction.timestamp (on_assistant e m cur) = Interaction.timestamp cur"
  "user_prompt (on_assistant e m cur) = user_prompt cur"
  by (simp_all add: on_assistant_def Let_def split: prod.splits option.splits)

lemma step_other:
  assumes "\<not> is_human_message e"
  shows "interaction_counter (step rt st e) = interaction_counter st"
    and "map id' (flush (step rt st e)) = map id' (flush st)"
    and "map Interaction.timestamp (flush (step rt st e)) = map Interaction.timestamp (flush st)"
    and "map user_prompt (flush (step rt st e)) = map user_prompt (flush st)"
  using assms
  by (auto simp: step_def flush_def on_user_keeps on_assistant_keeps
      split: EntryKind.splits option.splits)

lemma foldl_step_ids:
  "interaction_counter (foldl (step rt) st es)
     = interaction_counter st + length (filter is_human_message es)
   \<and> map id' (flush (foldl (step rt) st es))
     = map id' (flush st)
       @ map (\<lambda>k. ''interaction-'' @ str_nat k)
           [Suc (interaction_counter st) ..<
            Suc (interaction_counter st + length (filter is_human_message es))]
   \<and> map Interaction.timestamp (flush (foldl (step rt) st es))
     = map Interaction.timestamp (flush st) @ map Entry.timestamp (filter is_human_message es)
   \<and> map user_prompt (flush (foldl (step rt) st es))
     = map user_prompt (flush st) @ map human_prompt (filter is_human_message es)"
proof (induction es arbitrary: st)
  case Nil
  then show ?case by simp
next
  case (Cons e es)
  show ?case
  proof (cases "is_human_message e")
    case True
    show ?thesis
      using Cons.IH [of "step rt st e"] True
      by (simp add: step_human upt_conv_Cons del: str_nat.simps upt_Suc)
  next
    case False
    show ?thesis
      using Cons.IH [of "step rt st e"] False
      by (simp add: step_other del: str_nat.simps upt_Suc)
  qed
qed

text \<open>
  C10. The interactions returned are, in order, those started by the human messages of
  the sequence, one for each: the k-th has the id \<open>interaction-k\<close>, and the timestamp and
  the prompt of the k-th human message.
\<close>

theorem C10_sequential_ids:
  "map id' (build_interactions rt es)
     = map (\<lambda>k. ''interaction-'' @ str_nat k) [1 ..< Suc (length (filter is_human_message es))]
   \<and> map Interaction.timestamp (build_interactions rt es)
     = map Entry.timestamp (filter is_human_message es)
   \<and> map user_prompt (build_interactions rt es)
     = map human_prompt (filter is_human_message es)"
  using foldl_step_ids [of rt "\<lparr> interactions = [], current_interaction = None,
                                  interaction_counter = 0 \<rparr>" es]
  by (simp add: build_interactions_def flush_def del: str_nat.simps upt_Suc)

section \<open>Matching tool results to tool uses\<close>



























section \<open>Conversation threads\<close>

subsection \<open>The dictionaries and the loop\<close>
















subsection \<open>Order of siblings\<close>



subsection \<open>Threads of a well-formed session\<close>


































end
